theory Spec2Isabelle
  imports Main
begin

section \<open>Data model of the translation screen\<close>

text \<open>
  The screen is a React function component. Its \<open>useState\<close> variables and \<open>useRef\<close>
  cells are fields of the record \<open>comp\<close>, together with what the component has done to
  the outside world (native audio calls, alerts, speech, requests), the timers it has
  armed and the asynchronous functions that are suspended at an \<open>await\<close>.

  A function defined in the component body closes over the \<open>useState\<close> values of the
  render that created it. The values a handler reads from its closure are the record
  \<open>render\<close>; a handler passes its own render on to the functions and timer callbacks it
  creates. Ref cells are shared and are always read from \<open>comp\<close>.
\<close>

type_synonym handle = nat

record language =
  lang_id :: nat
  lang_code :: string
  lang_name :: string

record render =
  r_inputText :: string
  r_translatedText :: string
  r_targetLanguage :: string
  r_hasAudioPermission :: bool

text \<open>Callbacks given to \<open>setTimeout\<close>, each with the render of the function that armed it.\<close>

datatype timer =
    AutoStop render
  | ShowDetected render string
  | ConfirmedTranslate render
  | AutoSpeak render
  | QuickTranslate render

text \<open>What follows \<open>await cleanupRecording()\<close>: the rest of \<open>startRecording\<close>, or nothing
  (the call in the unmount effect is not awaited).\<close>

datatype after = ThenStart render | ThenNothing

text \<open>The suspension points: one constructor for each \<open>await\<close> that waits for the
  outside world, holding the local variables that are live across it.\<close>

datatype cont =
    CleanupStatus after
  | CleanupStop handle after
  | StartDelay render
  | StartAudioMode render
  | StartPrepare handle render
  | StartStart handle render
  | StopStatus render
  | StopUnload handle render
  | ProcessSim render
  | TranslateFetch render
  | TranslateErrText render
  | TranslateJson render
  | LangFetch
  | LangJson
  | SetupPerm
  | SetupMode

text \<open>What an awaited operation settles with. \<open>Rejected\<close> is a rejected promise (a throw
  at the \<open>await\<close>); \<open>Response n\<close> is an HTTP response with status \<open>n\<close>;
  \<open>Status canRecord isRecording\<close> is the result of \<open>getStatusAsync\<close>;
  \<open>TranslationBody t\<close> is a parsed body \<open>{translated_text: t}\<close>, the shape the
  translation service answers with.\<close>

datatype reply =
    Rejected
  | Resolved
  | Status bool bool
  | Permission bool
  | Response nat
  | LanguagesBody "language list option"
  | TranslationBody string
  | BodyText string
  | Random nat

datatype call =
    GetStatus handle
  | StopAndUnload handle
  | Prepare handle
  | StartAsync handle
  | SetAudioMode
  | RequestPermissions
  | FetchLanguages
  | Vibrate nat
  | Delay nat
  | SpeechStop

record speech =
  sp_text :: string
  sp_language :: string

record request =
  rq_text :: string
  rq_source_lang :: string
  rq_target_lang :: string

record comp =
  inputText :: string
  translatedText :: string
  targetLanguage :: string
  loading :: bool
  isRecording :: bool
  isListening :: bool
  languages :: "language list"
  recordingDuration :: nat
  hasAudioPermission :: bool
  isTranscribing :: bool
  recordingRef :: "handle option"
  recordingTimeoutRef :: "nat option"
  durationIntervalRef :: "nat option"
  isRecordingRef :: bool
  isMountedRef :: bool
  timers :: "(nat \<times> nat \<times> timer) list"
  intervals :: "nat list"
  nextTimer :: nat
  nextHandle :: nat
  live :: "handle list"
  calls :: "call list"
  alerts :: "(string \<times> string) list"
  dialogs :: "render list"
  spoken :: "speech list"
  requests :: "request list"
  tasks :: "cont list"

text \<open>The component as \<open>useState\<close> and \<open>useRef\<close> initialise it, in a world where nothing
  has happened yet.\<close>

definition initial :: comp where
  "initial = \<lparr> inputText = [], translatedText = [], targetLanguage = ''zu'',
     loading = False, isRecording = False, isListening = False, languages = [],
     recordingDuration = 0, hasAudioPermission = False, isTranscribing = False,
     recordingRef = None, recordingTimeoutRef = None, durationIntervalRef = None,
     isRecordingRef = False, isMountedRef = True,
     timers = [], intervals = [], nextTimer = 0, nextHandle = 0, live = [],
     calls = [], alerts = [], dialogs = [], spoken = [], requests = [], tasks = [] \<rparr>"

definition current :: "comp \<Rightarrow> render" where
  "current c = \<lparr> r_inputText = inputText c, r_translatedText = translatedText c,
     r_targetLanguage = targetLanguage c, r_hasAudioPermission = hasAudioPermission c \<rparr>"

section \<open>The outside world\<close>

definition alert :: "string \<Rightarrow> string \<Rightarrow> comp \<Rightarrow> comp" where
  "alert title msg c = c\<lparr>alerts := alerts c @ [(title, msg)]\<rparr>"

definition invoke :: "call \<Rightarrow> comp \<Rightarrow> comp" where
  "invoke x c = c\<lparr>calls := calls c @ [x]\<rparr>"

text \<open>\<open>setTimeout\<close> returns the id \<open>nextTimer c\<close> of the timer it arms.\<close>

definition setTimeout :: "timer \<Rightarrow> nat \<Rightarrow> comp \<Rightarrow> comp" where
  "setTimeout f ms c =
     c\<lparr>timers := timers c @ [(nextTimer c, ms, f)], nextTimer := Suc (nextTimer c)\<rparr>"

definition clearTimeout :: "nat \<Rightarrow> comp \<Rightarrow> comp" where
  "clearTimeout t c = c\<lparr>timers := filter (\<lambda>e. fst e \<noteq> t) (timers c)\<rparr>"

definition setInterval :: "comp \<Rightarrow> comp" where
  "setInterval c = c\<lparr>intervals := intervals c @ [nextTimer c], nextTimer := Suc (nextTimer c)\<rparr>"

definition clearInterval :: "nat \<Rightarrow> comp \<Rightarrow> comp" where
  "clearInterval i c = c\<lparr>intervals := filter (\<lambda>j. j \<noteq> i) (intervals c)\<rparr>"

text \<open>The native recorder. A recording is live from the moment
  \<open>prepareToRecordAsync\<close> has resolved for it until \<open>stopAndUnloadAsync\<close> has resolved
  for it. Whether a native call resolves or rejects is decided by the device, not by
  the component, so it is an input of the model (the \<open>reply\<close>).\<close>

definition acquire :: "handle \<Rightarrow> comp \<Rightarrow> comp" where
  "acquire h c = c\<lparr>live := live c @ [h]\<rparr>"

definition unload :: "handle \<Rightarrow> comp \<Rightarrow> comp" where
  "unload h c = c\<lparr>live := filter (\<lambda>k. k \<noteq> h) (live c)\<rparr>"

section \<open>The capture controller\<close>

text \<open>\<open>if (isMountedRef.current) { setIsRecording(false); setIsListening(false); }\<close>\<close>

definition clearFlags :: "comp \<Rightarrow> comp" where
  "clearFlags c = (if isMountedRef c then c\<lparr>isRecording := False, isListening := False\<rparr> else c)"

subsection \<open>cleanupRecording\<close>

definition cleanupEnd :: "after \<Rightarrow> comp \<Rightarrow> comp \<times> cont option" where
  "cleanupEnd a c =
     (let c1 = clearFlags (c\<lparr>isRecordingRef := False\<rparr>) in
      case a of
        ThenNothing \<Rightarrow> (c1, None)
      | ThenStart r \<Rightarrow> (invoke (Delay 300) c1, Some (StartDelay r)))"

definition cleanupRelease :: "after \<Rightarrow> comp \<Rightarrow> comp \<times> cont option" where
  "cleanupRelease a c = cleanupEnd a (c\<lparr>recordingRef := None\<rparr>)"

definition cleanupRecording :: "after \<Rightarrow> comp \<Rightarrow> comp \<times> cont option" where
  "cleanupRecording a c =
     (case recordingRef c of
        Some h \<Rightarrow> (invoke (GetStatus h) c, Some (CleanupStatus a))
      | None \<Rightarrow> cleanupEnd a c)"

text \<open>After \<open>await recordingRef.current.getStatusAsync()\<close>. The reference is read again
  for \<open>stopAndUnloadAsync\<close>; reading a method of \<open>null\<close> throws into the inner catch.\<close>

fun cleanupGotStatus :: "after \<Rightarrow> reply \<Rightarrow> comp \<Rightarrow> comp \<times> cont option" where
  "cleanupGotStatus a (Status canRecord recording) c =
     (if recording then
        (case recordingRef c of
           Some h \<Rightarrow> (invoke (StopAndUnload h) c, Some (CleanupStop h a))
         | None \<Rightarrow> cleanupRelease a c)
      else cleanupRelease a c)"
| "cleanupGotStatus a _ c = cleanupRelease a c"

fun cleanupStopped :: "handle \<Rightarrow> after \<Rightarrow> reply \<Rightarrow> comp \<Rightarrow> comp \<times> cont option" where
  "cleanupStopped h a Rejected c = cleanupRelease a c"
| "cleanupStopped h a _ c = cleanupRelease a (unload h c)"

subsection \<open>startRecording\<close>

definition startRecording :: "render \<Rightarrow> comp \<Rightarrow> comp \<times> cont option" where
  "startRecording r c =
     (if \<not> r_hasAudioPermission r
      then (alert ''Permission Required'' ''Microphone permission is required'' c, None)
      else cleanupRecording (ThenStart r) c)"

definition startDelayed :: "render \<Rightarrow> comp \<Rightarrow> comp \<times> cont option" where
  "startDelayed r c = (invoke SetAudioMode (invoke (Vibrate 100) c), Some (StartAudioMode r))"

text \<open>The \<open>catch (prepareError)\<close> block.\<close>

definition prepareFailed :: "comp \<Rightarrow> comp \<times> cont option" where
  "prepareFailed c =
     (alert ''Recording Error'' ''Failed to start recording. Please try again.''
        (clearFlags (c\<lparr>recordingRef := None, isRecordingRef := False\<rparr>)), None)"

fun startModeSet :: "render \<Rightarrow> reply \<Rightarrow> comp \<Rightarrow> comp \<times> cont option" where
  "startModeSet r Rejected c = (clearFlags c, None)"
| "startModeSet r _ c =
     (invoke (Prepare (nextHandle c)) (c\<lparr>nextHandle := Suc (nextHandle c)\<rparr>),
      Some (StartPrepare (nextHandle c) r))"

fun startPrepared :: "handle \<Rightarrow> render \<Rightarrow> reply \<Rightarrow> comp \<Rightarrow> comp \<times> cont option" where
  "startPrepared h r Rejected c = prepareFailed c"
| "startPrepared h r _ c = (invoke (StartAsync h) (acquire h c), Some (StartStart h r))"

text \<open>After \<open>await recording.startAsync()\<close>: store the recording, raise the flags, clear
  any armed timer and arm the auto-stop timer of 8000 ms.\<close>

definition startStarted :: "handle \<Rightarrow> render \<Rightarrow> comp \<Rightarrow> comp \<times> cont option" where
  "startStarted h r c =
     (let c1 = c\<lparr>recordingRef := Some h, isRecordingRef := True\<rparr>;
          c2 = (if isMountedRef c1 then c1\<lparr>isRecording := True, isListening := True\<rparr> else c1);
          c3 = (case recordingTimeoutRef c2 of Some t \<Rightarrow> clearTimeout t c2 | None \<Rightarrow> c2);
          c4 = (setTimeout (AutoStop r) 8000 c3)\<lparr>recordingTimeoutRef := Some (nextTimer c3)\<rparr>
      in (c4, None))"

fun startBegun :: "handle \<Rightarrow> render \<Rightarrow> reply \<Rightarrow> comp \<Rightarrow> comp \<times> cont option" where
  "startBegun h r Rejected c = prepareFailed c"
| "startBegun h r _ c = startStarted h r c"

subsection \<open>stopRecording and processRecordedAudio\<close>

definition processRecordedAudio :: "render \<Rightarrow> handle \<Rightarrow> comp \<Rightarrow> comp \<times> cont option" where
  "processRecordedAudio r uri c =
     (if \<not> isMountedRef c then (c, None)
      else (invoke (Delay 1500) (c\<lparr>isTranscribing := True\<rparr>), Some (ProcessSim r)))"

text \<open>The \<open>finally\<close> block of the inner \<open>try\<close>, then the processing of the URI if there
  is one.\<close>

definition stopFinally :: "render \<Rightarrow> handle option \<Rightarrow> comp \<Rightarrow> comp \<times> cont option" where
  "stopFinally r uri c =
     (let c1 = clearFlags (c\<lparr>recordingRef := None, isRecordingRef := False\<rparr>) in
      case uri of
        Some u \<Rightarrow> processRecordedAudio r u c1
      | None \<Rightarrow> (c1, None))"

definition stopRecording :: "render \<Rightarrow> comp \<Rightarrow> comp \<times> cont option" where
  "stopRecording r c =
     (let c1 = invoke (Vibrate 100) c;
          c2 = (case recordingTimeoutRef c1 of
                  Some t \<Rightarrow> (clearTimeout t c1)\<lparr>recordingTimeoutRef := None\<rparr>
                | None \<Rightarrow> c1)
      in case recordingRef c2 of
           None \<Rightarrow> (clearFlags c2, None)
         | Some h \<Rightarrow>
             if \<not> isRecordingRef c2 then (clearFlags c2, None)
             else (invoke (GetStatus h) c2, Some (StopStatus r)))"

fun stopGotStatus :: "render \<Rightarrow> reply \<Rightarrow> comp \<Rightarrow> comp \<times> cont option" where
  "stopGotStatus r (Status canRecord recording) c =
     (if canRecord \<and> recording then
        (case recordingRef c of
           Some h \<Rightarrow> (invoke (StopAndUnload h) c, Some (StopUnload h r))
         | None \<Rightarrow> stopFinally r None c)
      else stopFinally r None c)"
| "stopGotStatus r _ c = stopFinally r None c"

text \<open>After \<open>await recordingRef.current.stopAndUnloadAsync()\<close>: the reference is read
  once more for \<open>getURI()\<close>; the URI of a prepared recording is its file.\<close>

fun stopUnloaded :: "handle \<Rightarrow> render \<Rightarrow> reply \<Rightarrow> comp \<Rightarrow> comp \<times> cont option" where
  "stopUnloaded h r Rejected c = stopFinally r None c"
| "stopUnloaded h r _ c = stopFinally r (recordingRef (unload h c)) (unload h c)"

definition handleVoiceTranslate :: "render \<Rightarrow> comp \<Rightarrow> comp \<times> cont option" where
  "handleVoiceTranslate r c = (if isRecordingRef c then stopRecording r c else startRecording r c)"

text \<open>\<open>simulateSpeechRecognition\<close> waits 1500 ms and returns
  \<open>commonPhrases[Math.floor(Math.random() * commonPhrases.length)]\<close>; the random index
  is the reply \<open>Random k\<close>, taken modulo the length of the list.\<close>

definition commonPhrases :: "string list" where
  "commonPhrases =
    [''How much is the fare?'', ''Where are you going?'', ''Please stop here'',
     ''Thank you'', ''This is your stop'', ''Exact change please'',
     ''Buckle your seatbelt'', ''Next stop coming up'', ''Please move to the back'',
     ''Watch your step'', ''Good morning'', ''Good afternoon'', ''Have a nice day'',
     ''How long until we arrive?'', ''This bus goes to the city'',
     ''I need to get to the airport'', ''What time does the next bus come?'',
     ''Is this the right bus for downtown?'', ''How much luggage can I bring?'',
     ''Do you accept credit cards?'']"

definition processFinally :: "comp \<Rightarrow> comp" where
  "processFinally c = (if isMountedRef c then c\<lparr>isTranscribing := False\<rparr> else c)"

fun processRecognised :: "render \<Rightarrow> reply \<Rightarrow> comp \<Rightarrow> comp \<times> cont option" where
  "processRecognised r (Random k) c =
     (let simulatedText = commonPhrases ! (k mod length commonPhrases) in
      if simulatedText \<noteq> [] \<and> isMountedRef c
      then (processFinally (setTimeout (ShowDetected r simulatedText) 100
              (c\<lparr>inputText := simulatedText\<rparr>)), None)
      else if isMountedRef c
      then (processFinally (alert ''Speech Recognition''
              ''Could not understand speech. Please try again.'' c), None)
      else (processFinally c, None))"
| "processRecognised r _ c =
     (processFinally (if isMountedRef c
        then alert ''Speech Recognition Error'' ''Failed to process audio. Please try again.'' c
        else c), None)"

section \<open>Translation and speech\<close>

text \<open>\<open>String.prototype.trim\<close>. A character of this model is a code unit below 256;
  among those, \<open>trim\<close> strips the white space U+0009, U+000B, U+000C, U+0020 and
  U+00A0 and the line terminators U+000A and U+000D (U+0085 is neither).\<close>

definition isSpace :: "char \<Rightarrow> bool" where
  "isSpace ch =
     (ch \<in> {CHR 0x09, CHR 0x0A, CHR 0x0B, CHR 0x0C, CHR 0x0D, CHR 0x20, CHR 0xA0})"

definition trim :: "string \<Rightarrow> string" where
  "trim s = rev (dropWhile isSpace (rev (dropWhile isSpace s)))"

definition languageCode :: "string \<Rightarrow> string" where
  "languageCode t =
     (if t = ''zu'' then ''zu-ZA'' else if t = ''xh'' then ''xh-ZA''
      else if t = ''af'' then ''af-ZA'' else if t = ''st'' then ''st-ZA'' else ''en-US'')"

text \<open>\<open>speakTranslatedText\<close> reads \<open>translatedText\<close> and \<open>targetLanguage\<close> from its
  closure.\<close>

definition speakTranslatedText :: "render \<Rightarrow> comp \<Rightarrow> comp" where
  "speakTranslatedText r c =
     (if r_translatedText r \<noteq> [] \<and> isMountedRef c
      then c\<lparr>spoken := spoken c @
             [\<lparr>sp_text = r_translatedText r, sp_language = languageCode (r_targetLanguage r)\<rparr>]\<rparr>
      else c)"

definition handleTranslate :: "render \<Rightarrow> comp \<Rightarrow> comp \<times> cont option" where
  "handleTranslate r c =
     (if trim (r_inputText r) = []
      then (alert ''Error'' ''Please enter text to translate'' c, None)
      else if \<not> isMountedRef c then (c, None)
      else (c\<lparr>loading := True,
               requests := requests c @
                 [\<lparr>rq_text = r_inputText r, rq_source_lang = ''en'',
                   rq_target_lang = r_targetLanguage r\<rparr>]\<rparr>,
            Some (TranslateFetch r)))"

definition translateFinally :: "comp \<Rightarrow> comp" where
  "translateFinally c = (if isMountedRef c then c\<lparr>loading := False\<rparr> else c)"

definition translateFailed :: "comp \<Rightarrow> comp \<times> cont option" where
  "translateFailed c =
     (translateFinally (if isMountedRef c
        then alert ''Translation Error''
               ''Failed to translate text. Please check your connection and try again.'' c
        else c), None)"

definition responseOk :: "nat \<Rightarrow> bool" where
  "responseOk n = (200 \<le> n \<and> n \<le> 299)"

fun translateFetched :: "render \<Rightarrow> reply \<Rightarrow> comp \<Rightarrow> comp \<times> cont option" where
  "translateFetched r (Response n) c =
     (if \<not> responseOk n then (c, Some (TranslateErrText r)) else (c, Some (TranslateJson r)))"
| "translateFetched r _ c = translateFailed c"

fun translateParsed :: "render \<Rightarrow> reply \<Rightarrow> comp \<Rightarrow> comp \<times> cont option" where
  "translateParsed r (TranslationBody t) c =
     (translateFinally (if isMountedRef c
        then setTimeout (AutoSpeak r) 500 (c\<lparr>translatedText := t\<rparr>)
        else c), None)"
| "translateParsed r _ c = translateFailed c"

definition handleQuickPhrase :: "render \<Rightarrow> string \<Rightarrow> comp \<Rightarrow> comp" where
  "handleQuickPhrase r phrase c =
     (if \<not> isMountedRef c then c
      else setTimeout (QuickTranslate r) 100 (c\<lparr>inputText := phrase\<rparr>))"

definition quickPhrases :: "string list" where
  "quickPhrases =
    [''How much is the fare?'', ''Where are you going?'', ''Please stop here'',
     ''Thank you'', ''This is your stop'', ''Exact change please'',
     ''Buckle your seatbelt'', ''Next stop coming up'', ''Please move to the back'',
     ''Watch your step'', ''Good morning'', ''Good afternoon'', ''Have a nice day'',
     ''How long until we arrive?'', ''This bus goes to the city'']"

section \<open>Language catalog and audio set-up\<close>

definition defaultLanguages :: "language list" where
  "defaultLanguages =
    [\<lparr>lang_id = 1, lang_code = ''zu'', lang_name = ''isiZulu''\<rparr>,
     \<lparr>lang_id = 2, lang_code = ''xh'', lang_name = ''isiXhosa''\<rparr>,
     \<lparr>lang_id = 3, lang_code = ''af'', lang_name = ''Afrikaans''\<rparr>,
     \<lparr>lang_id = 4, lang_code = ''st'', lang_name = ''Sesotho''\<rparr>]"

definition loadLanguages :: "comp \<Rightarrow> comp \<times> cont option" where
  "loadLanguages c = (invoke FetchLanguages c, Some LangFetch)"

definition languagesFailed :: "comp \<Rightarrow> comp \<times> cont option" where
  "languagesFailed c =
     ((alert ''Error'' ''Failed to load languages. Using default languages.'' c)
        \<lparr>languages := defaultLanguages\<rparr>, None)"

fun languagesFetched :: "reply \<Rightarrow> comp \<Rightarrow> comp \<times> cont option" where
  "languagesFetched (Response n) c =
     (if \<not> responseOk n then languagesFailed c else (c, Some LangJson))"
| "languagesFetched _ c = languagesFailed c"

text \<open>\<open>setLanguages(data.languages || [])\<close>: \<open>LanguagesBody None\<close> is a body without a
  \<open>languages\<close> field.\<close>

fun languagesParsed :: "reply \<Rightarrow> comp \<Rightarrow> comp \<times> cont option" where
  "languagesParsed (LanguagesBody (Some ls)) c = (c\<lparr>languages := ls\<rparr>, None)"
| "languagesParsed (LanguagesBody None) c = (c\<lparr>languages := []\<rparr>, None)"
| "languagesParsed _ c = languagesFailed c"

definition setupAudio :: "comp \<Rightarrow> comp \<times> cont option" where
  "setupAudio c = (invoke RequestPermissions c, Some SetupPerm)"

definition setupFailed :: "comp \<Rightarrow> comp \<times> cont option" where
  "setupFailed c =
     (alert ''Audio Error'' ''Failed to setup audio recording''
        (c\<lparr>hasAudioPermission := False\<rparr>), None)"

fun setupAnswered :: "reply \<Rightarrow> comp \<Rightarrow> comp \<times> cont option" where
  "setupAnswered (Permission granted) c =
     (if \<not> granted
      then ((alert ''Permission Required''
               ''Microphone permission is required for voice translation'' c)
              \<lparr>hasAudioPermission := False\<rparr>, None)
      else (invoke SetAudioMode c, Some SetupMode))"
| "setupAnswered _ c = setupFailed c"

fun setupModeSet :: "reply \<Rightarrow> comp \<Rightarrow> comp \<times> cont option" where
  "setupModeSet Rejected c = setupFailed c"
| "setupModeSet _ c = (c\<lparr>hasAudioPermission := True\<rparr>, None)"

section \<open>Resuming a suspended function\<close>

fun resume :: "cont \<Rightarrow> reply \<Rightarrow> comp \<Rightarrow> comp \<times> cont option" where
  "resume (CleanupStatus a) x c = cleanupGotStatus a x c"
| "resume (CleanupStop h a) x c = cleanupStopped h a x c"
| "resume (StartDelay r) x c = startDelayed r c"
| "resume (StartAudioMode r) x c = startModeSet r x c"
| "resume (StartPrepare h r) x c = startPrepared h r x c"
| "resume (StartStart h r) x c = startBegun h r x c"
| "resume (StopStatus r) x c = stopGotStatus r x c"
| "resume (StopUnload h r) x c = stopUnloaded h r x c"
| "resume (ProcessSim r) x c = processRecognised r x c"
| "resume (TranslateFetch r) x c = translateFetched r x c"
| "resume (TranslateErrText r) x c = translateFailed c"
| "resume (TranslateJson r) x c = translateParsed r x c"
| "resume LangFetch x c = languagesFetched x c"
| "resume LangJson x c = languagesParsed x c"
| "resume SetupPerm x c = setupAnswered x c"
| "resume SetupMode x c = setupModeSet x c"

section \<open>Running one call to completion\<close>

text \<open>A device answers each suspension point with a reply. \<open>complete n device\<close> resumes a
  call until it has returned, at most \<open>n\<close> times; \<open>history\<close> lists the states it passes
  through, each with the point it is suspended at. No call of this component suspends more
  than six times.\<close>

fun complete :: "nat \<Rightarrow> (cont \<Rightarrow> reply) \<Rightarrow> comp \<times> cont option \<Rightarrow> comp \<times> cont option" where
  "complete 0 device x = x"
| "complete (Suc n) device (c, None) = (c, None)"
| "complete (Suc n) device (c, Some k) = complete n device (resume k (device k) c)"


section \<open>The component as a transition system\<close>

text \<open>The effect on \<open>[isRecording]\<close> that drives the duration readout, and its clean-up.\<close>

definition durationEffect :: "comp \<Rightarrow> comp" where
  "durationEffect c =
     (if isRecording c
      then (setInterval c)\<lparr>durationIntervalRef := Some (nextTimer c)\<rparr>
      else (case durationIntervalRef c of Some i \<Rightarrow> clearInterval i c | None \<Rightarrow> c))"

definition durationCleanup :: "comp \<Rightarrow> comp" where
  "durationCleanup c = (case durationIntervalRef c of Some i \<Rightarrow> clearInterval i c | None \<Rightarrow> c)"

text \<open>After an update React renders again and, when \<open>isRecording\<close> has changed, runs the
  clean-up of the effect and then the effect. An unmounted component is not rendered.\<close>

definition commit :: "comp \<Rightarrow> comp \<Rightarrow> comp" where
  "commit old c =
     (if isMountedRef c \<and> isRecording c \<noteq> isRecording old
      then durationEffect (durationCleanup c) else c)"

definition spawn :: "comp \<times> cont option \<Rightarrow> comp" where
  "spawn x = (case snd x of None \<Rightarrow> fst x | Some k \<Rightarrow> (fst x)\<lparr>tasks := tasks (fst x) @ [k]\<rparr>)"

text \<open>The mount effect: \<open>isMountedRef.current = true; loadLanguages(); setupAudio();\<close>\<close>

definition mountEffect :: "comp \<Rightarrow> comp" where
  "mountEffect c = spawn (setupAudio (spawn (loadLanguages (c\<lparr>isMountedRef := True\<rparr>))))"

text \<open>The clean-up of the mount effect, followed by the clean-up of the duration effect.\<close>

definition unmount :: "comp \<Rightarrow> comp" where
  "unmount c =
     (let c1 = spawn (cleanupRecording ThenNothing (c\<lparr>isMountedRef := False\<rparr>));
          c2 = (case recordingTimeoutRef c1 of Some t \<Rightarrow> clearTimeout t c1 | None \<Rightarrow> c1);
          c3 = (case durationIntervalRef c2 of Some i \<Rightarrow> clearInterval i c2 | None \<Rightarrow> c2)
      in durationCleanup (invoke SpeechStop c3))"

fun fire :: "timer \<Rightarrow> comp \<Rightarrow> comp" where
  "fire (AutoStop r) c = (if isRecordingRef c then spawn (stopRecording r c) else c)"
| "fire (ShowDetected r t) c =
     (if isMountedRef c
      then (alert ''Voice Input'' (''Detected: '' @ [CHR 0x22] @ t @ [CHR 0x22]) c)
             \<lparr>dialogs := dialogs c @ [r]\<rparr>
      else c)"
| "fire (ConfirmedTranslate r) c = spawn (handleTranslate r c)"
| "fire (AutoSpeak r) c = speakTranslatedText r c"
| "fire (QuickTranslate r) c = spawn (handleTranslate r c)"

datatype event =
    TapVoice
  | TapTranslate
  | TapQuickPhrase nat
  | TapSpeakAgain
  | TapStopSpeaking
  | ChangeText string
  | SelectLanguage string
  | PressTranslate nat
  | PressCancel nat
  | Fire nat
  | Tick nat
  | Settle nat reply
  | Unmount

definition without :: "nat \<Rightarrow> 'a list \<Rightarrow> 'a list" where
  "without i xs = take i xs @ drop (Suc i) xs"

text \<open>One event, handled to the next suspension. A control that is rendered disabled, or
  not rendered, delivers no press; an unmounted screen delivers none at all.\<close>

fun handle :: "event \<Rightarrow> comp \<Rightarrow> comp" where
  "handle TapVoice c =
     (if isMountedRef c \<and> \<not> loading c \<and> hasAudioPermission c \<and> \<not> isTranscribing c
      then spawn (handleVoiceTranslate (current c) c) else c)"
| "handle TapTranslate c =
     (if isMountedRef c \<and> \<not> loading c \<and> trim (inputText c) \<noteq> [] \<and> \<not> isTranscribing c
      then spawn (handleTranslate (current c) c) else c)"
| "handle (TapQuickPhrase i) c =
     (if isMountedRef c \<and> i < length quickPhrases \<and> \<not> loading c \<and> \<not> isTranscribing c
      then handleQuickPhrase (current c) (quickPhrases ! i) c else c)"
| "handle TapSpeakAgain c =
     (if isMountedRef c \<and> translatedText c \<noteq> [] then speakTranslatedText (current c) c else c)"
| "handle TapStopSpeaking c =
     (if isMountedRef c \<and> translatedText c \<noteq> [] then invoke SpeechStop c else c)"
| "handle (ChangeText t) c =
     (if isMountedRef c \<and> \<not> loading c \<and> \<not> isTranscribing c then c\<lparr>inputText := t\<rparr> else c)"
| "handle (SelectLanguage code) c =
     (if isMountedRef c \<and> code \<noteq> ''en'' \<and> code \<in> set (map lang_code (languages c))
      then c\<lparr>targetLanguage := code\<rparr> else c)"
| "handle (PressTranslate i) c =
     (if i < length (dialogs c)
      then setTimeout (ConfirmedTranslate (dialogs c ! i)) 500 (c\<lparr>dialogs := without i (dialogs c)\<rparr>)
      else c)"
| "handle (PressCancel i) c =
     (if i < length (dialogs c) then c\<lparr>dialogs := without i (dialogs c)\<rparr> else c)"
| "handle (Fire t) c =
     (case filter (\<lambda>e. fst e = t) (timers c) of
        [] \<Rightarrow> c
      | e # _ \<Rightarrow> fire (snd (snd e)) (clearTimeout t c))"
| "handle (Tick i) c =
     (if i \<in> set (intervals c) then c\<lparr>recordingDuration := recordingDuration c + 1\<rparr> else c)"
| "handle (Settle i x) c =
     (if i < length (tasks c)
      then spawn (resume (tasks c ! i) x (c\<lparr>tasks := without i (tasks c)\<rparr>))
      else c)"
| "handle Unmount c = (if isMountedRef c then unmount c else c)"

definition step :: "event \<Rightarrow> comp \<Rightarrow> comp" where
  "step e c = commit c (handle e c)"

fun exec :: "event list \<Rightarrow> comp \<Rightarrow> comp" where
  "exec [] c = c"
| "exec (e # es) c = exec es (step e c)"

text \<open>The screen after its first render and mount effect.\<close>

definition screen :: comp where
  "screen = mountEffect initial"

section \<open>Notions used in the statements and proofs\<close>

subsection \<open>Replies\<close>

text \<open>What a reply means to the code that reads it: \<open>status.isRecording\<close> in
  \<open>cleanupRecording\<close>, \<open>status.canRecord && status.isRecording\<close> in
  \<open>stopRecording\<close>. A reply of another shape has neither property.\<close>

fun saysRecording :: "reply \<Rightarrow> bool" where
  "saysRecording (Status a b) = b"
| "saysRecording _ = False"

fun saysActive :: "reply \<Rightarrow> bool" where
  "saysActive (Status a b) = (a \<and> b)"
| "saysActive _ = False"

subsection \<open>Suspensions ahead\<close>

text \<open>\<open>depth k\<close> bounds the number of suspensions still ahead of a function suspended at
  \<open>k\<close>; each resumption lowers it, so \<open>complete\<close> with enough fuel ends with the call
  returned.\<close>

fun depth :: "cont \<Rightarrow> nat" where
  "depth (CleanupStatus ThenNothing) = 2"
| "depth (CleanupStatus (ThenStart r)) = 6"
| "depth (CleanupStop h ThenNothing) = 1"
| "depth (CleanupStop h (ThenStart r)) = 5"
| "depth (StartDelay r) = 4"
| "depth (StartAudioMode r) = 3"
| "depth (StartPrepare h r) = 2"
| "depth (StartStart h r) = 1"
| "depth (StopStatus r) = 3"
| "depth (StopUnload h r) = 2"
| "depth (ProcessSim r) = 1"
| "depth (TranslateFetch r) = 2"
| "depth (TranslateErrText r) = 1"
| "depth (TranslateJson r) = 1"
| "depth LangFetch = 2"
| "depth LangJson = 1"
| "depth SetupPerm = 2"
| "depth SetupMode = 1"

definition remaining :: "cont option \<Rightarrow> nat" where
  "remaining k = (case k of None \<Rightarrow> 0 | Some k' \<Rightarrow> depth k')"

subsection \<open>What holds while starting and while stopping\<close>

text \<open>\<open>coherent\<close>: the recording flag is set exactly when a recording is referenced.
  \<open>starting\<close> and \<open>stopping\<close> say what holds at each suspension point of
  \<open>startRecording\<close> and of \<open>stopRecording\<close>, whatever the device replies.\<close>

definition coherent :: "comp \<Rightarrow> bool" where
  "coherent c = (isRecordingRef c = (recordingRef c \<noteq> None))"

fun starting :: "comp \<Rightarrow> cont option \<Rightarrow> bool" where
  "starting c None = coherent c"
| "starting c (Some (CleanupStatus (ThenStart r))) = True"
| "starting c (Some (CleanupStop h (ThenStart r))) = True"
| "starting c (Some (StartDelay r)) = coherent c"
| "starting c (Some (StartAudioMode r)) = coherent c"
| "starting c (Some (StartPrepare h r)) = coherent c"
| "starting c (Some (StartStart h r)) = coherent c"
| "starting c (Some _) = False"

definition stopped :: "comp \<Rightarrow> bool" where
  "stopped c = (recordingRef c = None \<and> \<not> isRecordingRef c \<and> recordingTimeoutRef c = None
     \<and> (isMountedRef c \<longrightarrow> \<not> isRecording c \<and> \<not> isListening c))"

fun stopping :: "comp \<Rightarrow> cont option \<Rightarrow> bool" where
  "stopping c None = stopped c"
| "stopping c (Some (StopStatus r)) = (recordingTimeoutRef c = None)"
| "stopping c (Some (StopUnload h r)) = (recordingTimeoutRef c = None)"
| "stopping c (Some (ProcessSim r)) = stopped c"
| "stopping c (Some _) = False"

text \<open>\<open>startRecording\<close> run to its return, then \<open>stopRecording\<close> run to its return, each
  from the render current at its call.\<close>

definition startThenStop :: "(cont \<Rightarrow> reply) \<Rightarrow> (cont \<Rightarrow> reply) \<Rightarrow> comp \<Rightarrow> comp \<times> cont option" where
  "startThenStop device1 device2 c =
     (let c1 = fst (complete 7 device1 (startRecording (current c) c))
      in complete 7 device2 (stopRecording (current c1) c1))"

subsection \<open>Runs of the screen\<close>

text \<open>The screen once the permission is granted and the catalog has loaded, and the five
  events of a recording that starts without a fault.\<close>

definition arrival :: "event list" where
  "arrival = [Settle 1 (Permission True), Settle 1 Resolved,
              Settle 0 (Response 200), Settle 0 (LanguagesBody (Some defaultLanguages))]"

definition opened :: comp where
  "opened = exec arrival screen"

definition recordingStarted :: "event list" where
  "recordingStarted =
     [TapVoice, Settle 0 Resolved, Settle 0 Resolved, Settle 0 Resolved, Settle 0 Resolved]"

text \<open>\<open>ticks e c\<close>: the event is a tick of an interval that is running.\<close>

fun ticks :: "event \<Rightarrow> comp \<Rightarrow> bool" where
  "ticks (Tick i) c = (i \<in> set (intervals c))"
| "ticks _ c = False"

subsection \<open>Sessions of start and stop calls\<close>












section \<open>The replies, case by case\<close>

text \<open>Each function that reads a reply, as one conditional.\<close>

lemma cleanupGotStatus_if:
  "cleanupGotStatus a x c =
     (case recordingRef c of
        Some h \<Rightarrow> if saysRecording x then (invoke (StopAndUnload h) c, Some (CleanupStop h a))
                  else cleanupRelease a c
      | None \<Rightarrow> cleanupRelease a c)"
  by (cases x) (auto split: option.splits)

lemma cleanupStopped_if:
  "cleanupStopped h a x c = cleanupRelease a (if x = Rejected then c else unload h c)"
  by (cases x) auto

lemma startModeSet_if:
  "startModeSet r x c =
     (if x = Rejected then (clearFlags c, None)
      else (invoke (Prepare (nextHandle c)) (c\<lparr>nextHandle := Suc (nextHandle c)\<rparr>),
            Some (StartPrepare (nextHandle c) r)))"
  by (cases x) auto

lemma startPrepared_if:
  "startPrepared h r x c =
     (if x = Rejected then prepareFailed c
      else (invoke (StartAsync h) (acquire h c), Some (StartStart h r)))"
  by (cases x) auto

lemma startBegun_if:
  "startBegun h r x c = (if x = Rejected then prepareFailed c else startStarted h r c)"
  by (cases x) auto

lemma stopGotStatus_if:
  "stopGotStatus r x c =
     (case recordingRef c of
        Some h \<Rightarrow> if saysActive x then (invoke (StopAndUnload h) c, Some (StopUnload h r))
                  else stopFinally r None c
      | None \<Rightarrow> stopFinally r None c)"
  by (cases x) (auto split: option.splits)

lemma stopUnloaded_if:
  "stopUnloaded h r x c =
     (if x = Rejected then stopFinally r None c
      else stopFinally r (recordingRef c) (unload h c))"
  by (cases x) (auto simp: unload_def)

lemmas reply_ifs = cleanupGotStatus_if cleanupStopped_if startModeSet_if startPrepared_if
  startBegun_if stopGotStatus_if stopUnloaded_if

section \<open>Every call returns\<close>

text \<open>Each resumption lowers \<open>depth\<close>, so \<open>complete\<close> with enough fuel ends with the
  call returned; and what every resumption preserves holds along the whole call.\<close>

lemma cleanupEnd_remaining: "remaining (snd (cleanupEnd a c)) \<le> (case a of ThenNothing \<Rightarrow> 0 | ThenStart r \<Rightarrow> 4)"
  by (cases a) (simp_all add: cleanupEnd_def remaining_def Let_def)

lemma cleanupRelease_remaining: "remaining (snd (cleanupRelease a c)) \<le> (case a of ThenNothing \<Rightarrow> 0 | ThenStart r \<Rightarrow> 4)"
  by (simp add: cleanupRelease_def cleanupEnd_remaining)

lemma stopFinally_remaining: "remaining (snd (stopFinally r u c)) \<le> 1"
  by (simp add: stopFinally_def processRecordedAudio_def remaining_def Let_def split: option.splits)

lemma processRecognised_remaining: "remaining (snd (processRecognised r x c)) = 0"
  by (cases x) (simp_all add: remaining_def Let_def)

lemma translateFetched_remaining: "remaining (snd (translateFetched r x c)) \<le> 1"
  by (cases x) (simp_all add: remaining_def translateFailed_def)

lemma translateParsed_remaining: "remaining (snd (translateParsed r x c)) = 0"
  by (cases x) (simp_all add: remaining_def translateFailed_def)

lemma languagesFetched_remaining: "remaining (snd (languagesFetched x c)) \<le> 1"
  by (cases x) (simp_all add: remaining_def languagesFailed_def)

lemma languagesParsed_remaining: "remaining (snd (languagesParsed x c)) = 0"
proof (cases x)
  case (LanguagesBody body)
  then show ?thesis by (cases body) (simp_all add: remaining_def)
qed (simp_all add: remaining_def languagesFailed_def)

lemma setupAnswered_remaining: "remaining (snd (setupAnswered x c)) \<le> 1"
  by (cases x) (simp_all add: remaining_def setupFailed_def)

lemma setupModeSet_remaining: "remaining (snd (setupModeSet x c)) = 0"
  by (cases x) (simp_all add: remaining_def setupFailed_def)

lemma resume_progress: "remaining (snd (resume k x c)) < depth k"
proof (cases k)
  case (CleanupStatus a)
  then show ?thesis
    using cleanupRelease_remaining [of a c]
    by (cases a) (auto simp: cleanupGotStatus_if remaining_def split: option.splits)
next
  case (CleanupStop h a)
  then show ?thesis
    using cleanupRelease_remaining [of a "if x = Rejected then c else unload h c"]
    by (cases a) (auto simp: cleanupStopped_if simp del: if_split split: after.splits)
next
  case (StopStatus r)
  then show ?thesis
    using stopFinally_remaining [of r None c]
    by (auto simp: stopGotStatus_if remaining_def split: option.splits)
next
  case (StopUnload h r)
  then show ?thesis
    using stopFinally_remaining [of r None c] stopFinally_remaining [of r "recordingRef c" "unload h c"]
    by (auto simp: stopUnloaded_if)
next
  case (ProcessSim r)
  then show ?thesis by (simp add: processRecognised_remaining)
next
  case (TranslateFetch r)
  then show ?thesis using translateFetched_remaining [of r x c] by simp
next
  case (TranslateJson r)
  then show ?thesis by (simp add: translateParsed_remaining)
next
  case LangFetch
  then show ?thesis using languagesFetched_remaining [of x c] by simp
next
  case LangJson
  then show ?thesis by (simp add: languagesParsed_remaining)
next
  case SetupPerm
  then show ?thesis using setupAnswered_remaining [of x c] by simp
next
  case SetupMode
  then show ?thesis by (simp add: setupModeSet_remaining)
qed (simp_all add: remaining_def reply_ifs startDelayed_def prepareFailed_def startStarted_def
       translateFailed_def Let_def)

lemma complete_returns:
  "remaining k \<le> n \<Longrightarrow> snd (complete n device (c, k)) = None"
proof (induction n arbitrary: c k)
  case 0
  show ?case
  proof (cases k)
    case None
    then show ?thesis by simp
  next
    case (Some k')
    have "0 < depth k'" using resume_progress [of k' Rejected c] by simp
    with 0 Some show ?thesis by (simp add: remaining_def)
  qed
next
  case (Suc n)
  show ?case
  proof (cases k)
    case None
    then show ?thesis by simp
  next
    case (Some k')
    obtain c' k'' where r: "resume k' (device k') c = (c', k'')" by force
    have "remaining k'' < depth k'" using resume_progress [of k' "device k'" c] r by simp
    with Suc.prems Some have "remaining k'' \<le> n" by (simp add: remaining_def)
    then show ?thesis using Suc.IH [of k'' c'] Some r by simp
  qed
qed

lemma complete_invariant:
  assumes step: "\<And>k c. I c (Some k) \<Longrightarrow> I (fst (resume k (device k) c)) (snd (resume k (device k) c))"
    and start: "I c k"
  shows "I (fst (complete n device (c, k))) (snd (complete n device (c, k)))"
  using start
proof (induction n arbitrary: c k)
  case 0
  then show ?case by simp
next
  case (Suc n)
  show ?case
  proof (cases k)
    case None
    with Suc.prems show ?thesis by simp
  next
    case (Some k')
    have "I (fst (resume k' (device k') c)) (snd (resume k' (device k') c))"
      using step Suc.prems Some by simp
    from Suc.IH [OF this] Some show ?thesis by simp
  qed
qed


section \<open>Stopping without a session\<close>

text \<open>
  Claim C3. \<open>stopRecording\<close> called when there is no live session (the recording
  reference is \<open>null\<close> or the recording flag is false) returns at once: it hands no
  recording to \<open>processRecordedAudio\<close> (no continuation, \<open>isTranscribing\<close> and the
  suspended functions untouched), shows no alert, leaves the auto-stop timer reference
  \<open>null\<close> and the recording reference and flag as they were and, on a mounted screen,
  has \<open>isRecording\<close> and \<open>isListening\<close> false. Calling it again changes nothing but the
  log of vibrations.
\<close>

theorem stopRecording_without_session:
  assumes "recordingRef c = None \<or> \<not> isRecordingRef c"
  shows "snd (stopRecording r c) = None
       \<and> isTranscribing (fst (stopRecording r c)) = isTranscribing c
       \<and> tasks (fst (stopRecording r c)) = tasks c
       \<and> alerts (fst (stopRecording r c)) = alerts c
       \<and> recordingTimeoutRef (fst (stopRecording r c)) = None
       \<and> recordingRef (fst (stopRecording r c)) = recordingRef c
       \<and> isRecordingRef (fst (stopRecording r c)) = isRecordingRef c
       \<and> (isMountedRef c \<longrightarrow> \<not> isRecording (fst (stopRecording r c))
                               \<and> \<not> isListening (fst (stopRecording r c)))
       \<and> stopRecording r' (fst (stopRecording r c))
           = (invoke (Vibrate 100) (fst (stopRecording r c)), None)"
  using assms
  by (auto simp: stopRecording_def clearFlags_def invoke_def clearTimeout_def Let_def
           split: option.splits)

theorem stopRecording_without_session_witness:
  "recordingRef screen = None
   \<and> isMountedRef screen
   \<and> snd (stopRecording (current screen) screen) = None
   \<and> \<not> isRecording (fst (stopRecording (current screen) screen))
   \<and> \<not> isListening (fst (stopRecording (current screen) screen))
   \<and> alerts (fst (stopRecording (current screen) screen)) = []"
proof -
  have none: "recordingRef screen = None" and mounted: "isMountedRef screen"
    and quiet: "alerts screen = []"
    by (simp_all add: screen_def mountEffect_def spawn_def setupAudio_def loadLanguages_def
          invoke_def initial_def)
  from none have "recordingRef screen = None \<or> \<not> isRecordingRef screen" by simp
  from stopRecording_without_session [OF this, of "current screen" "current screen"]
  show ?thesis using none mounted quiet by simp
qed

section \<open>A failed translation\<close>

text \<open>A text of white space only, a no-break space included, is blank: no request is sent
  and the alert asks for text.\<close>

lemma handleTranslate_blank:
  "handleTranslate (r\<lparr>r_inputText := [CHR 0x20, CHR 0xA0, CHR 0x09]\<rparr>) c
     = (alert ''Error'' ''Please enter text to translate'' c, None)"
  by (simp add: handleTranslate_def trim_def isSpace_def)

text \<open>
  Claim C5. A translation request is sent when the text is not blank and the screen is
  mounted. When it fails (the fetch rejects, or the response is not 2xx), the
  \<open>Translation Error\<close> alert is shown, \<open>inputText\<close> is as it was, \<open>translatedText\<close> is as
  it was (so an empty field stays empty), \<open>loading\<close> is false again, and no speech is
  scheduled or spoken.
\<close>

theorem handleTranslate_failure:
  assumes "trim (r_inputText r) \<noteq> []" and "isMountedRef c"
    and "device (TranslateFetch r) = Rejected
         \<or> (\<exists>n. device (TranslateFetch r) = Response n \<and> \<not> responseOk n)"
  shows "snd (complete 3 device (handleTranslate r c)) = None
       \<and> inputText (fst (complete 3 device (handleTranslate r c))) = inputText c
       \<and> translatedText (fst (complete 3 device (handleTranslate r c))) = translatedText c
       \<and> (translatedText c = [] \<longrightarrow>
            translatedText (fst (complete 3 device (handleTranslate r c))) = [])
       \<and> alerts (fst (complete 3 device (handleTranslate r c)))
           = alerts c @ [(''Translation Error'',
                ''Failed to translate text. Please check your connection and try again.'')]
       \<and> \<not> loading (fst (complete 3 device (handleTranslate r c)))
       \<and> timers (fst (complete 3 device (handleTranslate r c))) = timers c
       \<and> spoken (fst (complete 3 device (handleTranslate r c))) = spoken c"
  using assms
  by (auto simp: handleTranslate_def translateFailed_def translateFinally_def alert_def
        numeral_3_eq_3)

theorem handleTranslate_failure_witness:
  "alerts (fst (complete 3 (\<lambda>k. Response 500)
       (handleTranslate (current (initial\<lparr>inputText := ''Thank you''\<rparr>))
          (initial\<lparr>inputText := ''Thank you''\<rparr>))))
     = [(''Translation Error'',
         ''Failed to translate text. Please check your connection and try again.'')]
   \<and> inputText (fst (complete 3 (\<lambda>k. Response 500)
       (handleTranslate (current (initial\<lparr>inputText := ''Thank you''\<rparr>))
          (initial\<lparr>inputText := ''Thank you''\<rparr>)))) = ''Thank you''
   \<and> translatedText (fst (complete 3 (\<lambda>k. Response 500)
       (handleTranslate (current (initial\<lparr>inputText := ''Thank you''\<rparr>))
          (initial\<lparr>inputText := ''Thank you''\<rparr>)))) = []"
proof -
  let ?c = "initial\<lparr>inputText := ''Thank you''\<rparr>"
  have nonblank: "trim (r_inputText (current ?c)) \<noteq> []"
    by (simp add: current_def trim_def isSpace_def)
  have mounted: "isMountedRef ?c" by (simp add: initial_def)
  have fails: "(\<lambda>k. Response 500) (TranslateFetch (current ?c)) = Rejected
      \<or> (\<exists>n. (\<lambda>k. Response 500) (TranslateFetch (current ?c)) = Response n \<and> \<not> responseOk n)"
    by (simp add: responseOk_def)
  from handleTranslate_failure [OF nonblank mounted fails]
  show ?thesis by (simp add: initial_def)
qed

section \<open>The language catalog\<close>

text \<open>
  Claim C9. \<open>loadLanguages\<close> always returns. When the fetch rejects or answers with a
  status outside 200..299, the language list becomes the four hard-coded defaults
  (isiZulu \<open>zu\<close>, isiXhosa \<open>xh\<close>, Afrikaans \<open>af\<close>, Sesotho \<open>st\<close>); when it answers 2xx
  with a body that has a \<open>languages\<close> list, that list is used.
\<close>

theorem loadLanguages_result:
  "snd (complete 2 device (loadLanguages c)) = None
   \<and> (device LangFetch = Rejected \<or> (\<exists>n. device LangFetch = Response n \<and> \<not> responseOk n)
        \<longrightarrow> languages (fst (complete 2 device (loadLanguages c))) = defaultLanguages)
   \<and> (\<forall>n ls. device LangFetch = Response n \<and> responseOk n
          \<and> device LangJson = LanguagesBody (Some ls)
        \<longrightarrow> languages (fst (complete 2 device (loadLanguages c))) = ls)
   \<and> length defaultLanguages = 4
   \<and> map lang_code defaultLanguages = [''zu'', ''xh'', ''af'', ''st'']
   \<and> map lang_name defaultLanguages = [''isiZulu'', ''isiXhosa'', ''Afrikaans'', ''Sesotho'']"
proof -
  have "remaining (snd (loadLanguages c)) \<le> 2"
    by (simp add: loadLanguages_def remaining_def)
  then have "snd (complete 2 device (fst (loadLanguages c), snd (loadLanguages c))) = None"
    by (rule complete_returns)
  then show ?thesis
    by (auto simp: loadLanguages_def languagesFailed_def defaultLanguages_def numeral_2_eq_2)
qed

theorem loadLanguages_result_witness:
  "languages (fst (complete 2 (\<lambda>k. Response 500) (loadLanguages initial))) = defaultLanguages
   \<and> languages (fst (complete 2 (\<lambda>k. Rejected) (loadLanguages initial))) = defaultLanguages
   \<and> languages (fst (complete 2
        (\<lambda>k. if k = LangFetch then Response 200
             else LanguagesBody (Some [\<lparr>lang_id = 7, lang_code = ''ts'', lang_name = ''Xitsonga''\<rparr>]))
        (loadLanguages initial)))
       = [\<lparr>lang_id = 7, lang_code = ''ts'', lang_name = ''Xitsonga''\<rparr>]"
  using loadLanguages_result [of "\<lambda>k. Response 500" initial]
    loadLanguages_result [of "\<lambda>k. Rejected" initial]
    loadLanguages_result [of "\<lambda>k. if k = LangFetch then Response 200
             else LanguagesBody (Some [\<lparr>lang_id = 7, lang_code = ''ts'', lang_name = ''Xitsonga''\<rparr>])" initial]
  by (simp add: responseOk_def)

section \<open>Start, then stop\<close>

text \<open>\<open>starting\<close> holds along \<open>startRecording\<close> and \<open>stopping\<close> along
  \<open>stopRecording\<close>, whatever the device replies.\<close>

lemma cleanupRelease_starting: "starting (fst (cleanupRelease (ThenStart r) c)) (snd (cleanupRelease (ThenStart r) c))"
  by (simp add: cleanupRelease_def cleanupEnd_def clearFlags_def invoke_def coherent_def Let_def)

lemma prepareFailed_starting: "starting (fst (prepareFailed c)) (snd (prepareFailed c))"
  by (simp add: prepareFailed_def clearFlags_def alert_def coherent_def)

lemma startStarted_starting: "starting (fst (startStarted h r c)) (snd (startStarted h r c))"
  by (simp add: startStarted_def clearTimeout_def setTimeout_def coherent_def Let_def
        split: option.splits)

lemma resume_starting:
  "starting c (Some k) \<Longrightarrow> starting (fst (resume k x c)) (snd (resume k x c))"
proof (cases k)
  case (CleanupStatus a)
  assume "starting c (Some k)"
  with CleanupStatus obtain r where "a = ThenStart r" by (cases a) simp_all
  with CleanupStatus show ?thesis
    by (simp add: cleanupGotStatus_if cleanupRelease_starting invoke_def split: option.splits)
next
  case (CleanupStop h a)
  assume "starting c (Some k)"
  with CleanupStop obtain r where "a = ThenStart r" by (cases a) simp_all
  with CleanupStop show ?thesis
    by (simp add: cleanupStopped_if cleanupRelease_starting del: if_split)
next
  case (StartDelay r)
  assume "starting c (Some k)"
  with StartDelay show ?thesis by (simp add: startDelayed_def invoke_def coherent_def)
next
  case (StartAudioMode r)
  assume "starting c (Some k)"
  with StartAudioMode show ?thesis
    by (simp add: startModeSet_if invoke_def clearFlags_def coherent_def)
next
  case (StartPrepare h r)
  assume "starting c (Some k)"
  with StartPrepare show ?thesis
    by (simp add: startPrepared_if prepareFailed_starting invoke_def acquire_def coherent_def)
next
  case (StartStart h r)
  then show ?thesis
    by (simp add: startBegun_if prepareFailed_starting startStarted_starting)
qed simp_all

lemma startRecording_starting:
  "r_hasAudioPermission r \<or> coherent c
     \<Longrightarrow> starting (fst (startRecording r c)) (snd (startRecording r c))"
  by (auto simp: startRecording_def cleanupRecording_def cleanupEnd_def clearFlags_def
        invoke_def alert_def coherent_def Let_def split: option.splits)

lemma startRecording_remaining: "remaining (snd (startRecording r c)) \<le> 7"
  by (simp add: startRecording_def cleanupRecording_def cleanupEnd_def remaining_def Let_def
        split: option.splits)

lemma stopFinally_stopping:
  "recordingTimeoutRef c = None \<Longrightarrow> stopping (fst (stopFinally r u c)) (snd (stopFinally r u c))"
  by (simp add: stopFinally_def processRecordedAudio_def clearFlags_def invoke_def stopped_def
        Let_def split: option.splits)

lemma processRecognised_stopping:
  "stopped c \<Longrightarrow> stopping (fst (processRecognised r x c)) (snd (processRecognised r x c))"
  by (cases x) (simp_all add: processFinally_def setTimeout_def alert_def stopped_def Let_def)

lemma resume_stopping:
  "stopping c (Some k) \<Longrightarrow> stopping (fst (resume k x c)) (snd (resume k x c))"
proof (cases k)
  case (StopStatus r)
  assume "stopping c (Some k)"
  with StopStatus show ?thesis
    by (simp add: stopGotStatus_if stopFinally_stopping invoke_def split: option.splits)
next
  case (StopUnload h r)
  assume "stopping c (Some k)"
  with StopUnload show ?thesis
    by (simp add: stopUnloaded_if stopFinally_stopping unload_def)
next
  case (ProcessSim r)
  assume "stopping c (Some k)"
  with ProcessSim show ?thesis by (simp add: processRecognised_stopping)
qed simp_all

lemma stopRecording_stopping:
  "coherent c \<Longrightarrow> stopping (fst (stopRecording r c)) (snd (stopRecording r c))"
  by (auto simp: stopRecording_def clearFlags_def invoke_def clearTimeout_def coherent_def
        stopped_def Let_def split: option.splits)

lemma stopRecording_remaining: "remaining (snd (stopRecording r c)) \<le> 7"
  by (simp add: stopRecording_def remaining_def Let_def split: option.splits)

lemma resume_mounted: "isMountedRef (fst (resume k x c)) = isMountedRef c"
proof (cases k)
  case (ProcessSim r)
  then show ?thesis
    by (cases x) (simp_all add: processFinally_def setTimeout_def alert_def Let_def)
next
  case (TranslateFetch r)
  then show ?thesis
    by (cases x) (simp_all add: translateFailed_def translateFinally_def alert_def)
next
  case (TranslateJson r)
  then show ?thesis
    by (cases x) (simp_all add: translateFailed_def translateFinally_def alert_def setTimeout_def)
next
  case LangFetch
  then show ?thesis by (cases x) (simp_all add: languagesFailed_def alert_def)
next
  case LangJson
  then show ?thesis
  proof (cases x)
    case (LanguagesBody body)
    with LangJson show ?thesis by (cases body) simp_all
  qed (simp_all add: LangJson languagesFailed_def alert_def)
next
  case SetupPerm
  then show ?thesis by (cases x) (simp_all add: setupFailed_def alert_def invoke_def)
next
  case SetupMode
  then show ?thesis by (cases x) (simp_all add: setupFailed_def alert_def)
qed (simp_all add: reply_ifs cleanupRelease_def cleanupEnd_def clearFlags_def invoke_def
      startDelayed_def prepareFailed_def alert_def acquire_def unload_def startStarted_def
      setTimeout_def clearTimeout_def stopFinally_def processRecordedAudio_def
      translateFailed_def translateFinally_def Let_def
      split: option.splits after.splits)

lemma complete_mounted: "isMountedRef (fst (complete n device (c, k))) = isMountedRef c"
proof (induction n arbitrary: c k)
  case 0
  then show ?case by simp
next
  case (Suc n)
  show ?case
  proof (cases k)
    case None
    then show ?thesis by simp
  next
    case (Some k')
    obtain c' k'' where r: "resume k' (device k') c = (c', k'')" by force
    then have "isMountedRef c' = isMountedRef c"
      using resume_mounted [of k' "device k'" c] by simp
    with Suc.IH [of c' k''] Some r show ?thesis by simp
  qed
qed

text \<open>The recording flag agrees with the reference after every event, so in every state
  the screen can reach.\<close>

lemma coherent_invoke: "coherent (invoke x c) = coherent c"
  by (simp add: invoke_def coherent_def)

lemma coherent_alert: "coherent (alert t m c) = coherent c"
  by (simp add: alert_def coherent_def)

lemma coherent_acquire: "coherent (acquire h c) = coherent c"
  by (simp add: acquire_def coherent_def)

lemma cleanupEnd_coherent: "recordingRef c = None \<Longrightarrow> coherent (fst (cleanupEnd a c))"
  by (simp add: cleanupEnd_def clearFlags_def invoke_def coherent_def Let_def split: after.splits)

lemma cleanupRelease_coherent: "coherent (fst (cleanupRelease a c))"
  by (simp add: cleanupRelease_def cleanupEnd_coherent)

lemma cleanupRecording_coherent: "coherent c \<Longrightarrow> coherent (fst (cleanupRecording a c))"
  by (cases "recordingRef c")
     (simp_all add: cleanupRecording_def cleanupEnd_coherent coherent_invoke)

lemma prepareFailed_coherent: "coherent (fst (prepareFailed c))"
  by (simp add: prepareFailed_def clearFlags_def alert_def coherent_def)

lemma startStarted_coherent: "coherent (fst (startStarted h r c))"
  by (simp add: startStarted_def clearTimeout_def setTimeout_def coherent_def Let_def
        split: option.splits)

lemma startRecording_coherent: "coherent c \<Longrightarrow> coherent (fst (startRecording r c))"
  by (simp add: startRecording_def cleanupRecording_coherent coherent_alert)

lemma stopFinally_coherent: "coherent (fst (stopFinally r u c))"
  by (simp add: stopFinally_def processRecordedAudio_def clearFlags_def invoke_def coherent_def
        Let_def split: option.splits)

lemma stopRecording_coherent: "coherent c \<Longrightarrow> coherent (fst (stopRecording r c))"
  by (simp add: stopRecording_def clearFlags_def invoke_def clearTimeout_def coherent_def Let_def
        split: option.splits)

lemma translateFailed_coherent: "coherent c \<Longrightarrow> coherent (fst (translateFailed c))"
  by (simp add: translateFailed_def translateFinally_def alert_def coherent_def)

lemma handleTranslate_coherent: "coherent c \<Longrightarrow> coherent (fst (handleTranslate r c))"
  by (simp add: handleTranslate_def alert_def coherent_def)

lemma languagesFailed_coherent: "coherent c \<Longrightarrow> coherent (fst (languagesFailed c))"
  by (simp add: languagesFailed_def alert_def coherent_def)

lemma setupFailed_coherent: "coherent c \<Longrightarrow> coherent (fst (setupFailed c))"
  by (simp add: setupFailed_def alert_def coherent_def)

lemma resume_coherent:
  assumes "coherent c"
  shows "coherent (fst (resume k x c))"
proof (cases k)
  case (CleanupStatus a)
  with assms show ?thesis
    by (simp add: cleanupGotStatus_if cleanupRelease_coherent coherent_invoke
          split: option.splits)
next
  case (CleanupStop h a)
  then show ?thesis by (simp add: cleanupStopped_if cleanupRelease_coherent del: if_split)
next
  case (StartDelay r)
  with assms show ?thesis by (simp add: startDelayed_def invoke_def coherent_def)
next
  case (StartAudioMode r)
  with assms show ?thesis by (simp add: startModeSet_if clearFlags_def invoke_def coherent_def)
next
  case (StartPrepare h r)
  with assms show ?thesis
    by (simp add: startPrepared_if prepareFailed_coherent coherent_invoke coherent_acquire)
next
  case (StartStart h r)
  then show ?thesis by (simp add: startBegun_if prepareFailed_coherent startStarted_coherent)
next
  case (StopStatus r)
  with assms show ?thesis
    by (simp add: stopGotStatus_if stopFinally_coherent coherent_invoke
          split: option.splits)
next
  case (StopUnload h r)
  then show ?thesis by (simp add: stopUnloaded_if stopFinally_coherent)
next
  case (ProcessSim r)
  with assms show ?thesis
    by (cases x) (simp_all add: processFinally_def setTimeout_def alert_def coherent_def Let_def)
next
  case (TranslateFetch r)
  with assms show ?thesis by (cases x) (simp_all add: translateFailed_coherent)
next
  case (TranslateErrText r)
  with assms show ?thesis by (simp add: translateFailed_coherent)
next
  case (TranslateJson r)
  with assms show ?thesis
    by (cases x)
       (simp_all add: translateFailed_coherent, simp add: translateFinally_def setTimeout_def coherent_def)
next
  case LangFetch
  with assms show ?thesis by (cases x) (simp_all add: languagesFailed_coherent)
next
  case LangJson
  show ?thesis
  proof (cases x)
    case (LanguagesBody body)
    with LangJson assms show ?thesis by (cases body) (simp_all add: coherent_def)
  qed (use LangJson assms in \<open>simp_all add: languagesFailed_coherent\<close>)
next
  case SetupPerm
  with assms show ?thesis
    by (cases x) (simp_all add: setupFailed_coherent, simp add: alert_def invoke_def coherent_def)
next
  case SetupMode
  with assms show ?thesis
    by (cases x) (simp_all add: setupFailed_coherent, simp_all add: coherent_def)
qed

lemma spawn_coherent: "coherent (spawn x) = coherent (fst x)"
  by (simp add: spawn_def coherent_def split: option.splits)

lemma fire_coherent: "coherent c \<Longrightarrow> coherent (fire t c)"
  by (cases t)
     (simp_all add: spawn_coherent stopRecording_coherent handleTranslate_coherent,
      simp_all add: alert_def speakTranslatedText_def coherent_def)

lemma unmount_coherent: "coherent c \<Longrightarrow> coherent (unmount c)"
proof -
  assume "coherent c"
  then have "coherent (c\<lparr>isMountedRef := False\<rparr>)" by (simp add: coherent_def)
  then have "coherent (spawn (cleanupRecording ThenNothing (c\<lparr>isMountedRef := False\<rparr>)))"
    by (simp add: spawn_coherent cleanupRecording_coherent)
  then show ?thesis
    by (simp add: unmount_def durationCleanup_def clearInterval_def clearTimeout_def invoke_def
          coherent_def Let_def split: option.splits)
qed

lemma commit_coherent: "coherent (commit old c) = coherent c"
  by (simp add: commit_def durationEffect_def durationCleanup_def setInterval_def
        clearInterval_def coherent_def split: option.splits)

lemma handle_coherent:
  assumes "coherent c"
  shows "coherent (handle e c)"
proof (cases e)
  case TapVoice
  with assms show ?thesis
    by (simp add: spawn_coherent handleVoiceTranslate_def stopRecording_coherent
          startRecording_coherent)
next
  case TapTranslate
  with assms show ?thesis by (simp add: spawn_coherent handleTranslate_coherent)
next
  case (TapQuickPhrase i)
  with assms show ?thesis by (simp add: handleQuickPhrase_def setTimeout_def coherent_def)
next
  case TapSpeakAgain
  with assms show ?thesis by (simp add: speakTranslatedText_def coherent_def)
next
  case TapStopSpeaking
  with assms show ?thesis by (simp add: invoke_def coherent_def)
next
  case (ChangeText t)
  with assms show ?thesis by (simp add: coherent_def)
next
  case (SelectLanguage code)
  with assms show ?thesis by (simp add: coherent_def)
next
  case (PressTranslate i)
  with assms show ?thesis by (simp add: setTimeout_def coherent_def)
next
  case (PressCancel i)
  with assms show ?thesis by (simp add: coherent_def)
next
  case (Fire t)
  have "coherent (clearTimeout t c)" using assms by (simp add: clearTimeout_def coherent_def)
  with Fire assms show ?thesis by (simp add: fire_coherent split: list.splits)
next
  case (Tick i)
  with assms show ?thesis by (simp add: coherent_def)
next
  case (Settle i x)
  have "coherent (c\<lparr>tasks := without i (tasks c)\<rparr>)" using assms by (simp add: coherent_def)
  with Settle assms show ?thesis by (simp add: spawn_coherent resume_coherent)
next
  case Unmount
  with assms show ?thesis by (simp add: unmount_coherent)
qed

lemma exec_coherent: "coherent c \<Longrightarrow> coherent (exec es c)"
  by (induction es arbitrary: c) (simp_all add: step_def commit_coherent handle_coherent)

lemma screen_coherent: "coherent screen"
  by (simp add: screen_def mountEffect_def spawn_def setupAudio_def loadLanguages_def
        invoke_def initial_def coherent_def)

lemma start_then_stop_from:
  assumes "hasAudioPermission c \<or> coherent c"
  shows "snd (complete 7 device1 (startRecording (current c) c)) = None
       \<and> snd (startThenStop device1 device2 c) = None
       \<and> recordingRef (fst (startThenStop device1 device2 c)) = None
       \<and> \<not> isRecordingRef (fst (startThenStop device1 device2 c))
       \<and> recordingTimeoutRef (fst (startThenStop device1 device2 c)) = None
       \<and> (isMountedRef c \<longrightarrow> \<not> isRecording (fst (startThenStop device1 device2 c))
                              \<and> \<not> isListening (fst (startThenStop device1 device2 c)))"
proof -
  let ?s = "startRecording (current c) c"
  let ?c1 = "fst (complete 7 device1 ?s)"
  let ?t = "stopRecording (current ?c1) ?c1"
  have perm: "r_hasAudioPermission (current c) \<or> coherent c"
    using assms by (simp add: current_def)
  have s_done: "snd (complete 7 device1 (fst ?s, snd ?s)) = None"
    by (rule complete_returns) (rule startRecording_remaining)
  have "starting (fst (complete 7 device1 (fst ?s, snd ?s))) (snd (complete 7 device1 (fst ?s, snd ?s)))"
    by (rule complete_invariant [of starting]) (simp_all add: resume_starting startRecording_starting perm)
  with s_done have c1: "coherent ?c1" by simp
  have m1: "isMountedRef ?c1 = isMountedRef c"
    using complete_mounted [of 7 device1 "fst ?s" "snd ?s"]
    by (simp add: startRecording_def cleanupRecording_def cleanupEnd_def clearFlags_def
          invoke_def alert_def Let_def split: option.splits)
  have t_done: "snd (complete 7 device2 (fst ?t, snd ?t)) = None"
    by (rule complete_returns) (rule stopRecording_remaining)
  have "stopping (fst (complete 7 device2 (fst ?t, snd ?t))) (snd (complete 7 device2 (fst ?t, snd ?t)))"
    by (rule complete_invariant [of stopping]) (simp_all add: resume_stopping stopRecording_stopping c1)
  with t_done have fin: "stopped (fst (complete 7 device2 ?t))" by simp
  have m2: "isMountedRef (fst (complete 7 device2 ?t)) = isMountedRef ?c1"
    using complete_mounted [of 7 device2 "fst ?t" "snd ?t"]
    by (simp add: stopRecording_def clearFlags_def invoke_def clearTimeout_def Let_def
          split: option.splits)
  show ?thesis
    using s_done t_done fin m1 m2 by (simp add: startThenStop_def stopped_def Let_def)
qed

section \<open>Evaluating a run\<close>

text \<open>Unfolding \<open>complete\<close> and \<open>history\<close> at a numeral of fuel.\<close>

lemma complete_None: "complete n device (c, None) = (c, None)"
  by (cases n) simp_all

lemma complete_Some:
  "0 < n \<Longrightarrow> complete n device (c, Some k) = complete (n - 1) device (resume k (device k) c)"
  by (cases n) simp_all



lemmas run_defs = step_def commit_def spawn_def without_def current_def
  handleVoiceTranslate_def startRecording_def cleanupRecording_def cleanupEnd_def
  cleanupRelease_def clearFlags_def invoke_def startDelayed_def prepareFailed_def
  startStarted_def alert_def acquire_def unload_def setTimeout_def clearTimeout_def
  setInterval_def clearInterval_def stopRecording_def stopFinally_def
  processRecordedAudio_def processFinally_def durationEffect_def durationCleanup_def
  trim_def isSpace_def languageCode_def speakTranslatedText_def handleTranslate_def
  translateFinally_def translateFailed_def responseOk_def handleQuickPhrase_def
  quickPhrases_def commonPhrases_def loadLanguages_def languagesFailed_def
  defaultLanguages_def setupAudio_def setupFailed_def mountEffect_def unmount_def
  screen_def initial_def Let_def

lemmas trace_defs = opened_def arrival_def recordingStarted_def run_defs

section \<open>Start, then stop, in any reachable state\<close>

text \<open>
  Claim C8. In every state the screen can reach, \<open>start()\<close> followed by \<open>stop()\<close> ends
  Idle whatever the device replies to either call: both calls return, the recording
  reference is \<open>null\<close>, the recording flag is false, the auto-stop timer reference is
  \<open>null\<close> and, on a mounted screen, \<open>isRecording\<close> and \<open>isListening\<close> are false. This
  covers a status that is not yet recording, a status query that rejects and a
  \<open>stopAndUnloadAsync\<close> that rejects.
\<close>

theorem start_then_stop:
  "snd (complete 7 device1 (startRecording (current (exec es screen)) (exec es screen))) = None
   \<and> snd (startThenStop device1 device2 (exec es screen)) = None
   \<and> recordingRef (fst (startThenStop device1 device2 (exec es screen))) = None
   \<and> \<not> isRecordingRef (fst (startThenStop device1 device2 (exec es screen)))
   \<and> recordingTimeoutRef (fst (startThenStop device1 device2 (exec es screen))) = None
   \<and> (isMountedRef (exec es screen) \<longrightarrow>
        \<not> isRecording (fst (startThenStop device1 device2 (exec es screen)))
        \<and> \<not> isListening (fst (startThenStop device1 device2 (exec es screen))))"
proof -
  have "coherent (exec es screen)"
    using screen_coherent by (rule exec_coherent)
  then have "hasAudioPermission (exec es screen) \<or> coherent (exec es screen)" by simp
  then show ?thesis by (rule start_then_stop_from)
qed

theorem start_then_stop_witness:
  "hasAudioPermission opened
   \<and> recordingRef (fst (complete 7 (\<lambda>k. Resolved) (startRecording (current opened) opened)))
       = Some 0
   \<and> recordingRef (fst (startThenStop (\<lambda>k. Resolved) (\<lambda>k. Status True False) opened)) = None
   \<and> \<not> isRecordingRef (fst (startThenStop (\<lambda>k. Resolved) (\<lambda>k. Status True False) opened))
   \<and> \<not> isRecording (fst (startThenStop (\<lambda>k. Resolved) (\<lambda>k. Status True False) opened))
   \<and> \<not> isListening (fst (startThenStop (\<lambda>k. Resolved) (\<lambda>k. Status True False) opened))"
proof -
  have here: "opened = exec arrival screen" by (simp add: opened_def)
  have mounted: "isMountedRef opened" and granted: "hasAudioPermission opened"
    by (simp_all add: trace_defs)
  have held: "recordingRef (fst (complete 7 (\<lambda>k. Resolved)
      (startRecording (current opened) opened))) = Some 0"
    by (simp add: trace_defs complete_None complete_Some)
  from start_then_stop [of "\<lambda>k. Resolved" arrival "\<lambda>k. Status True False"]
  show ?thesis using mounted granted held by (simp add: here [symmetric])
qed

section \<open>The duration readout\<close>

lemma cleanupEnd_duration: "recordingDuration (fst (cleanupEnd a c)) = recordingDuration c"
  by (simp add: cleanupEnd_def clearFlags_def invoke_def Let_def split: after.splits)

lemma cleanupRelease_duration: "recordingDuration (fst (cleanupRelease a c)) = recordingDuration c"
  by (simp add: cleanupRelease_def cleanupEnd_duration)

lemma cleanupRecording_duration: "recordingDuration (fst (cleanupRecording a c)) = recordingDuration c"
  by (simp add: cleanupRecording_def cleanupEnd_duration invoke_def split: option.splits)

lemma prepareFailed_duration: "recordingDuration (fst (prepareFailed c)) = recordingDuration c"
  by (simp add: prepareFailed_def clearFlags_def alert_def)

lemma startStarted_duration: "recordingDuration (fst (startStarted h r c)) = recordingDuration c"
  by (simp add: startStarted_def clearTimeout_def setTimeout_def Let_def split: option.splits)

lemma startRecording_duration: "recordingDuration (fst (startRecording r c)) = recordingDuration c"
  by (simp add: startRecording_def cleanupRecording_duration alert_def)

lemma stopFinally_duration: "recordingDuration (fst (stopFinally r u c)) = recordingDuration c"
  by (simp add: stopFinally_def processRecordedAudio_def clearFlags_def invoke_def Let_def
        split: option.splits)

lemma stopRecording_duration: "recordingDuration (fst (stopRecording r c)) = recordingDuration c"
  by (simp add: stopRecording_def clearFlags_def invoke_def clearTimeout_def Let_def
        split: option.splits)

lemma translateFailed_duration: "recordingDuration (fst (translateFailed c)) = recordingDuration c"
  by (simp add: translateFailed_def translateFinally_def alert_def)

lemma handleTranslate_duration: "recordingDuration (fst (handleTranslate r c)) = recordingDuration c"
  by (simp add: handleTranslate_def alert_def)

lemma languagesFailed_duration: "recordingDuration (fst (languagesFailed c)) = recordingDuration c"
  by (simp add: languagesFailed_def alert_def)

lemma setupFailed_duration: "recordingDuration (fst (setupFailed c)) = recordingDuration c"
  by (simp add: setupFailed_def alert_def)

lemma resume_duration: "recordingDuration (fst (resume k x c)) = recordingDuration c"
proof (cases k)
  case (CleanupStatus a)
  then show ?thesis
    by (simp add: cleanupGotStatus_if cleanupRelease_duration invoke_def split: option.splits)
next
  case (CleanupStop h a)
  then show ?thesis
    using cleanupRelease_duration [of a c] cleanupRelease_duration [of a "unload h c"]
    by (simp add: cleanupStopped_if unload_def)
next
  case (StartDelay r)
  then show ?thesis by (simp add: startDelayed_def invoke_def)
next
  case (StartAudioMode r)
  then show ?thesis by (simp add: startModeSet_if clearFlags_def invoke_def)
next
  case (StartPrepare h r)
  then show ?thesis by (simp add: startPrepared_if prepareFailed_duration invoke_def acquire_def)
next
  case (StartStart h r)
  then show ?thesis by (simp add: startBegun_if prepareFailed_duration startStarted_duration)
next
  case (StopStatus r)
  then show ?thesis
    by (simp add: stopGotStatus_if stopFinally_duration invoke_def split: option.splits)
next
  case (StopUnload h r)
  then show ?thesis
    using stopFinally_duration [of r "recordingRef c" "unload h c"]
    by (simp add: stopUnloaded_if stopFinally_duration unload_def)
next
  case (ProcessSim r)
  then show ?thesis
    by (cases x) (simp_all add: processFinally_def setTimeout_def alert_def Let_def)
next
  case (TranslateFetch r)
  then show ?thesis by (cases x) (simp_all add: translateFailed_duration)
next
  case (TranslateErrText r)
  then show ?thesis by (simp add: translateFailed_duration)
next
  case (TranslateJson r)
  then show ?thesis
    by (cases x) (simp_all add: translateFailed_duration translateFinally_def setTimeout_def)
next
  case LangFetch
  then show ?thesis by (cases x) (simp_all add: languagesFailed_duration)
next
  case LangJson
  then show ?thesis
  proof (cases x)
    case (LanguagesBody body)
    with LangJson show ?thesis by (cases body) simp_all
  qed (simp_all add: LangJson languagesFailed_duration)
next
  case SetupPerm
  then show ?thesis by (cases x) (simp_all add: setupFailed_duration alert_def invoke_def)
next
  case SetupMode
  then show ?thesis by (cases x) (simp_all add: setupFailed_duration)
qed

lemma spawn_duration: "recordingDuration (spawn x) = recordingDuration (fst x)"
  by (simp add: spawn_def split: option.splits)

lemma fire_duration: "recordingDuration (fire t c) = recordingDuration c"
  by (cases t)
     (simp_all add: spawn_duration stopRecording_duration handleTranslate_duration alert_def
        speakTranslatedText_def)

lemma unmount_duration: "recordingDuration (unmount c) = recordingDuration c"
  by (simp add: unmount_def durationCleanup_def clearInterval_def clearTimeout_def invoke_def
        spawn_duration cleanupRecording_duration Let_def split: option.splits)

lemma commit_duration: "recordingDuration (commit old c) = recordingDuration c"
  by (simp add: commit_def durationEffect_def durationCleanup_def setInterval_def
        clearInterval_def split: option.splits)

lemma handle_duration:
  "recordingDuration (handle e c) = (if ticks e c then recordingDuration c + 1 else recordingDuration c)"
proof (cases e)
  case TapVoice
  then show ?thesis
    by (simp add: spawn_duration handleVoiceTranslate_def stopRecording_duration
          startRecording_duration)
next
  case TapTranslate
  then show ?thesis by (simp add: spawn_duration handleTranslate_duration)
next
  case (TapQuickPhrase i)
  then show ?thesis by (simp add: handleQuickPhrase_def setTimeout_def)
next
  case TapSpeakAgain
  then show ?thesis by (simp add: speakTranslatedText_def)
next
  case TapStopSpeaking
  then show ?thesis by (simp add: invoke_def)
next
  case (PressTranslate i)
  then show ?thesis by (simp add: setTimeout_def)
next
  case (Fire t)
  then show ?thesis by (simp add: fire_duration clearTimeout_def split: list.splits)
next
  case (Settle i x)
  then show ?thesis by (simp add: spawn_duration resume_duration)
next
  case Unmount
  then show ?thesis by (simp add: unmount_duration)
qed simp_all

text \<open>
  Claim C10. \<open>recordingDuration\<close> is 0 when the screen is created, and no event ever
  lowers it: a tick of the running interval adds one, and every other event (the start
  of a new recording included) leaves it as it is. So over any run of events it never
  decreases, and a new capture session counts on from where the last one ended.
\<close>

theorem recordingDuration_never_reset:
  "recordingDuration initial = 0
   \<and> recordingDuration screen = 0
   \<and> recordingDuration (step e c)
       = (if ticks e c then recordingDuration c + 1 else recordingDuration c)
   \<and> recordingDuration c \<le> recordingDuration (exec es c)"
proof -
  have one: "\<And>e c. recordingDuration (step e c)
       = (if ticks e c then recordingDuration c + 1 else recordingDuration c)"
    by (simp add: step_def commit_duration handle_duration)
  have many: "recordingDuration c \<le> recordingDuration (exec es c)"
  proof (induction es arbitrary: c)
    case Nil
    then show ?case by simp
  next
    case (Cons e es)
    have "recordingDuration c \<le> recordingDuration (step e c)" by (simp add: one)
    also have "\<dots> \<le> recordingDuration (exec es (step e c))" by (rule Cons.IH)
    finally show ?case by simp
  qed
  have "recordingDuration screen = 0"
    by (simp add: screen_def mountEffect_def spawn_duration setupAudio_def loadLanguages_def
          invoke_def initial_def)
  with one many show ?thesis by (simp add: initial_def)
qed

theorem recordingDuration_never_reset_witness:
  "recordingDuration (exec (recordingStarted @ [Tick 1, Tick 1, Tick 1]) opened) = 3
   \<and> recordingDuration
        (exec (recordingStarted @ [Tick 1, Tick 1, Tick 1,
                 TapVoice, Settle 0 (Status True True), Settle 0 Resolved, Settle 0 (Random 3)]
               @ recordingStarted) opened) = 3
   \<and> isRecording
        (exec (recordingStarted @ [Tick 1, Tick 1, Tick 1,
                 TapVoice, Settle 0 (Status True True), Settle 0 Resolved, Settle 0 (Random 3)]
               @ recordingStarted) opened)
   \<and> recordingDuration
        (step (Tick 4) (exec (recordingStarted @ [Tick 1, Tick 1, Tick 1,
                 TapVoice, Settle 0 (Status True True), Settle 0 Resolved, Settle 0 (Random 3)]
               @ recordingStarted) opened)) = 4"
  using recordingDuration_never_reset
    [of "Tick 4" "exec (recordingStarted @ [Tick 1, Tick 1, Tick 1,
                 TapVoice, Settle 0 (Status True True), Settle 0 Resolved, Settle 0 (Random 3)]
               @ recordingStarted) opened" "[]"]
  by (simp add: trace_defs)

section \<open>One recording at a time\<close>















section \<open>Timer expiry against a manual stop\<close>

text \<open>
  Claim C2 fails on the code. A recording is started, which arms the auto-stop timer
  (id 0, 8000 ms). The timer expires: its callback finds \<open>isRecordingRef\<close> true and calls
  \<open>stopRecording\<close>, which suspends at \<open>getStatusAsync\<close>. The flag is lowered only after
  that await, so a tap on the button before the status arrives finds it still true and
  calls \<open>stopRecording\<close> again: two calls are past the guard, and both go on to call
  \<open>stopAndUnloadAsync\<close> on recording 0.
\<close>

theorem timer_and_tap_both_stop:
  "timers (exec recordingStarted opened) = [(0, 8000, AutoStop (current opened))]
   \<and> isRecordingRef (exec (recordingStarted @ [Fire 0]) opened)
   \<and> tasks (exec (recordingStarted @ [Fire 0, TapVoice]) opened)
       = [StopStatus (current opened), StopStatus (current opened)]
   \<and> calls (exec (recordingStarted @ [Fire 0, TapVoice,
                Settle 0 (Status True True), Settle 0 (Status True True)]) opened)
       = [FetchLanguages, RequestPermissions, SetAudioMode, Delay 300, Vibrate 100,
          SetAudioMode, Prepare 0, StartAsync 0,
          Vibrate 100, GetStatus 0, Vibrate 100, GetStatus 0,
          StopAndUnload 0, StopAndUnload 0]"
  by (simp add: trace_defs)

section \<open>Writes after teardown\<close>

text \<open>
  Claim C4 fails on the code. The screen is unmounted while \<open>loadLanguages\<close> and
  \<open>setupAudio\<close> are suspended. When their awaits settle, \<open>setLanguages\<close> and
  \<open>setHasAudioPermission\<close> are called all the same: neither function reads
  \<open>isMountedRef\<close>.
\<close>

theorem state_written_after_unmount:
  "\<not> isMountedRef (exec [Unmount] screen)
   \<and> tasks (exec [Unmount] screen) = [LangFetch, SetupPerm]
   \<and> languages (exec [Unmount] screen) = []
   \<and> \<not> hasAudioPermission (exec [Unmount] screen)
   \<and> languages (exec [Unmount, Settle 0 (Response 200),
          Settle 1 (LanguagesBody (Some [\<lparr>lang_id = 7, lang_code = ''ts'', lang_name = ''Xitsonga''\<rparr>]))]
        screen) = [\<lparr>lang_id = 7, lang_code = ''ts'', lang_name = ''Xitsonga''\<rparr>]
   \<and> languages (exec [Unmount, Settle 0 Rejected] screen) = defaultLanguages
   \<and> alerts (exec [Unmount, Settle 0 Rejected] screen)
       = [(''Error'', ''Failed to load languages. Using default languages.'')]
   \<and> hasAudioPermission (exec [Unmount, Settle 1 (Permission True), Settle 1 Resolved] screen)"
  by (simp add: trace_defs)

section \<open>Speaking after a translation\<close>

text \<open>
  Claim C6 fails on the code. \<open>handleTranslate\<close> arms a timer that calls the
  \<open>speakTranslatedText\<close> of its own render, whose \<open>translatedText\<close> is the value from
  before the request. After the first successful translation the field holds the new
  text and nothing is spoken; after the second, the first translation is spoken (with
  the locale \<open>zu-ZA\<close> for the target \<open>zu\<close>) while the field holds the second.
\<close>

theorem auto_speak_reads_stale_translation:
  "translatedText (exec [ChangeText ''Thank you'', TapTranslate, Settle 0 (Response 200),
        Settle 0 (TranslationBody ''Ngiyabonga''), Fire 0] opened) = ''Ngiyabonga''
   \<and> timers (exec [ChangeText ''Thank you'', TapTranslate, Settle 0 (Response 200),
        Settle 0 (TranslationBody ''Ngiyabonga''), Fire 0] opened) = []
   \<and> spoken (exec [ChangeText ''Thank you'', TapTranslate, Settle 0 (Response 200),
        Settle 0 (TranslationBody ''Ngiyabonga''), Fire 0] opened) = []
   \<and> translatedText (exec [ChangeText ''Thank you'', TapTranslate, Settle 0 (Response 200),
        Settle 0 (TranslationBody ''Ngiyabonga''), Fire 0,
        ChangeText ''Good morning'', TapTranslate, Settle 0 (Response 200),
        Settle 0 (TranslationBody ''Sawubona''), Fire 1] opened) = ''Sawubona''
   \<and> spoken (exec [ChangeText ''Thank you'', TapTranslate, Settle 0 (Response 200),
        Settle 0 (TranslationBody ''Ngiyabonga''), Fire 0,
        ChangeText ''Good morning'', TapTranslate, Settle 0 (Response 200),
        Settle 0 (TranslationBody ''Sawubona''), Fire 1] opened)
       = [\<lparr>sp_text = ''Ngiyabonga'', sp_language = ''zu-ZA''\<rparr>]"
  by (simp add: trace_defs)

section \<open>Quick phrases\<close>

text \<open>
  Claim C7 fails on the code. \<open>handleQuickPhrase\<close> sets the input text and arms a timer
  that calls the \<open>handleTranslate\<close> of its own render, whose \<open>inputText\<close> is the value
  from before the tap. On a screen with an empty input, tapping \<open>Thank you\<close> fills the
  input but sends no request and shows \<open>Please enter text to translate\<close>; tapping
  \<open>Good morning\<close> next sends a request for \<open>Thank you\<close>.
\<close>

theorem quick_phrase_translates_stale_text:
  "quickPhrases ! 3 = ''Thank you''
   \<and> quickPhrases ! 10 = ''Good morning''
   \<and> inputText (exec [TapQuickPhrase 3, Fire 0] opened) = ''Thank you''
   \<and> requests (exec [TapQuickPhrase 3, Fire 0] opened) = []
   \<and> alerts (exec [TapQuickPhrase 3, Fire 0] opened)
       = [(''Error'', ''Please enter text to translate'')]
   \<and> inputText (exec [TapQuickPhrase 3, Fire 0, TapQuickPhrase 10, Fire 1] opened)
       = ''Good morning''
   \<and> requests (exec [TapQuickPhrase 3, Fire 0, TapQuickPhrase 10, Fire 1] opened)
       = [\<lparr>rq_text = ''Thank you'', rq_source_lang = ''en'', rq_target_lang = ''zu''\<rparr>]"
  by (simp add: trace_defs)

end
